theory Spec2Isabelle
  imports Main
begin

section \<open>Product catalogue (devices.py)\<close>

text \<open>
  The three dataclasses of devices.py. \<open>TuyaBLEProductInfo.manufacturer\<close> defaults to the
  constant \<open>DEVICE_DEF_MANUFACTURER\<close>, which const.py defines; the catalogue takes that
  constant as its parameter \<open>mf\<close>.
\<close>

record TuyaBLEFingerbotInfo =
  switch :: int
  mode :: int
  up_position :: int
  down_position :: int
  hold_time :: int
  reverse_positions :: int
  manual_control :: int
  program :: int

record TuyaBLEProductInfo =
  name :: string
  manufacturer :: string
  fingerbot :: "TuyaBLEFingerbotInfo option"

record TuyaBLECategoryInfo =
  products :: "(string \<times> TuyaBLEProductInfo) list"
  info :: "TuyaBLEProductInfo option"

text \<open>\<open>dict.fromkeys(keys, v)\<close>: every key is bound to the same value.\<close>

definition fromkeys :: "'k list \<Rightarrow> 'v \<Rightarrow> ('k \<times> 'v) list" where
  "fromkeys ks v = map (\<lambda>k. (k, v)) ks"

text \<open>A product without a fingerbot descriptor: \<open>TuyaBLEProductInfo(name=n)\<close>.\<close>

definition plain_product :: "string \<Rightarrow> string \<Rightarrow> TuyaBLEProductInfo" where
  "plain_product mf n = \<lparr>name = n, manufacturer = mf, fingerbot = None\<rparr>"

definition cubetouch_fingerbot :: TuyaBLEFingerbotInfo where
  "cubetouch_fingerbot =
     \<lparr>switch = 1, mode = 2, up_position = 5, down_position = 6, hold_time = 3,
      reverse_positions = 4, manual_control = 0, program = 0\<rparr>"

definition fingerbot_plus_fingerbot :: TuyaBLEFingerbotInfo where
  "fingerbot_plus_fingerbot =
     \<lparr>switch = 2, mode = 8, up_position = 15, down_position = 9, hold_time = 10,
      reverse_positions = 11, manual_control = 17, program = 121\<rparr>"

definition fingerbot_fingerbot :: TuyaBLEFingerbotInfo where
  "fingerbot_fingerbot =
     \<lparr>switch = 2, mode = 8, up_position = 15, down_position = 9, hold_time = 10,
      reverse_positions = 11, manual_control = 0, program = 121\<rparr>"

text \<open>
  \<open>devices_database\<close>, in the order of the source. Dictionaries are association lists; the
  keys of every dictionary are distinct (lemmas \<open>devices_database_keys\<close> and
  \<open>devices_database_product_keys\<close>), so a lookup by \<open>map_of\<close> is the dictionary's \<open>get\<close>.
\<close>

definition devices_database :: "string \<Rightarrow> (string \<times> TuyaBLECategoryInfo) list" where
  "devices_database mf =
     [(''co2bj'', \<lparr>products = [(''59s19z5m'', plain_product mf ''CO2 Detector'')], info = None\<rparr>),
      (''ms'', \<lparr>products = fromkeys [''ludzroix'', ''isk2p555'', ''isljqiq1'']
                              (plain_product mf ''Smart Lock''),
                info = None\<rparr>),
      (''szjqr'',
        \<lparr>products =
           [(''3yqdo5yt'', \<lparr>name = ''CUBETOUCH 1s'', manufacturer = mf,
                             fingerbot = Some cubetouch_fingerbot\<rparr>),
            (''xhf790if'', \<lparr>name = ''CubeTouch II'', manufacturer = mf,
                             fingerbot = Some cubetouch_fingerbot\<rparr>)]
           @ fromkeys [''blliqpsj'', ''ndvkgsrm'', ''yiihr7zh'', ''neq16kgd'']
               \<lparr>name = ''Fingerbot Plus'', manufacturer = mf,
                fingerbot = Some fingerbot_plus_fingerbot\<rparr>
           @ fromkeys [''ltak7e1p'', ''y6kttvd6'', ''yrnk7mnn'', ''nvr2rocq'', ''bnt7wajf'',
                       ''rvdceqjh'', ''5xhbk964'']
               \<lparr>name = ''Fingerbot'', manufacturer = mf,
                fingerbot = Some fingerbot_fingerbot\<rparr>,
         info = None\<rparr>),
      (''wk'', \<lparr>products = fromkeys [''drlajpqc'', ''nhj2j7su'']
                              (plain_product mf ''Thermostatic Radiator Valve''),
                info = None\<rparr>),
      (''wsdcg'', \<lparr>products = [(''ojzlzzsw'', plain_product mf ''Soil moisture sensor'')],
                   info = None\<rparr>),
      (''znhsb'', \<lparr>products = [(''cdlandip'', plain_product mf ''Smart water bottle'')],
                   info = None\<rparr>),
      (''ggq'', \<lparr>products = [(''6pahkcau'', plain_product mf ''Irrigation computer'')],
                 info = None\<rparr>)]"

text \<open>
  \<open>get_product_info_by_ids\<close>. A dataclass instance is always truthy, so
  \<open>if not category_info\<close> is the test for \<open>None\<close>.
\<close>

definition get_product_info_by_ids :: "string \<Rightarrow> string \<Rightarrow> string \<Rightarrow> TuyaBLEProductInfo option" where
  "get_product_info_by_ids mf category product_id =
     (case map_of (devices_database mf) category of
        None \<Rightarrow> None
      | Some category_info \<Rightarrow>
          (case map_of (products category_info) product_id of
             Some product_info \<Rightarrow> Some product_info
           | None \<Rightarrow> info category_info))"

section \<open>Addresses (devices.py)\<close>

text \<open>
  Strings are lists of 8-bit characters. \<open>str.upper\<close> is modelled on ASCII, which is what a
  BLE address consists of: the letters a..z are raised and every other character is kept.
  No theorem below depends on how \<open>upper\<close> treats a character.
\<close>

definition upper_char :: "char \<Rightarrow> char" where
  "upper_char c =
     (let n = (of_char c :: nat) in if 97 \<le> n \<and> n \<le> 122 then char_of (n - 32) else c)"

definition upper :: "string \<Rightarrow> string" where
  "upper s = map upper_char s"

text \<open>\<open>s.replace(a, b)\<close> for one-character \<open>a\<close> and \<open>b\<close>.\<close>

definition replace_char :: "char \<Rightarrow> char \<Rightarrow> string \<Rightarrow> string" where
  "replace_char a b s = map (\<lambda>c. if c = a then b else c) s"

text \<open>
  \<open>s.split(sep)\<close> for a one-character separator: the result always has at least one
  part, the empty string giving one empty part. The first case of the \<open>case\<close> below is
  never taken (lemma \<open>split_char_not_Nil\<close>).
\<close>

fun split_char :: "char \<Rightarrow> string \<Rightarrow> string list" where
  "split_char sep [] = [[]]"
| "split_char sep (c # cs) =
     (if c = sep then [] # split_char sep cs
      else (case split_char sep cs of
              [] \<Rightarrow> [[c]]
            | p # ps \<Rightarrow> (c # p) # ps))"

text \<open>\<open>sep.join(parts)\<close>.\<close>

fun join :: "string \<Rightarrow> string list \<Rightarrow> string" where
  "join sep [] = []"
| "join sep [p] = p"
| "join sep (p # q # ps) = p @ sep @ join sep (q # ps)"

text \<open>
  \<open>xs[-k:]\<close> for \<open>k > 0\<close>: the slice starts at \<open>max(len(xs) - k, 0)\<close> and never raises
  (the subtraction on \<open>nat\<close> stops at 0, as the slice does).
\<close>

definition slice_from_end :: "nat \<Rightarrow> 'a list \<Rightarrow> 'a list" where
  "slice_from_end k xs = drop (length xs - k) xs"

definition get_full_address :: "string \<Rightarrow> string" where
  "get_full_address address = upper (replace_char (CHR ''-'') (CHR '':'') address)"

definition get_short_address :: "string \<Rightarrow> string" where
  "get_short_address address =
     (let full = get_full_address address;
          parts = split_char (CHR '':'') full
      in join '':'' (slice_from_end 3 parts))"

text \<open>
  The words of the claim about \<open>get_short_address\<close>: "the last three colon-separated
  groups", read off the end of the list of groups.
\<close>

definition last_three_groups :: "string list \<Rightarrow> string list" where
  "last_three_groups parts = rev (take 3 (rev parts))"

section \<open>The coordinator (class TuyaBLECoordinator)\<close>

text \<open>
  What the coordinator reads of its collaborators: of a \<open>TuyaBLEDevice\<close> the four
  properties below, of a \<open>TuyaBLEDataPoint\<close> its id, value and origin flag.
\<close>

record TuyaBLEDevice =
  address :: string
  device_id :: string
  category :: string
  product_id :: string

record TuyaBLEDataPoint =
  dp_id :: int
  dp_value :: int
  changed_by_device :: bool

definition get_device_product_info :: "string \<Rightarrow> TuyaBLEDevice \<Rightarrow> TuyaBLEProductInfo option" where
  "get_device_product_info mf dev = get_product_info_by_ids mf (category dev) (product_id dev)"

text \<open>
  What the coordinator does to the outside: a call of \<open>async_update_listeners\<close> (the
  observers' "state changed" signal) and \<open>hass.bus.fire(FINGERBOT_BUTTON_EVENT, ...)\<close> with
  the address and the device id it carries. Both are recorded, in order, in \<open>outputs\<close>.
\<close>

datatype effect =
    Update_Listeners
  | Button_Event string string

text \<open>
  The state. \<open>device\<close>, \<open>disconnected\<close> and \<open>unsub_disconnect\<close> are the coordinator's
  attributes \<open>_device\<close>, \<open>_disconnected\<close> and \<open>_unsub_disconnect\<close>. The rest is the host's
  event loop: the time \<open>clock\<close>, the pending one-shot timers as pairs of a handle and the
  time they are due, in the order they were scheduled, and the next fresh handle. The
  value \<open>async_call_later\<close> returns, a function that cancels the timer, is the timer's
  handle; calling it is \<open>cancel\<close>. The only callback ever scheduled is
  \<open>_set_disconnected\<close>, so a timer does not name its callback.
\<close>

record coordinator =
  device :: TuyaBLEDevice
  disconnected :: bool
  unsub_disconnect :: "nat option"
  clock :: nat
  timers :: "(nat \<times> nat) list"
  next_handle :: nat
  outputs :: "effect list"

text \<open>\<open>__init__\<close>, on a host whose clock reads \<open>t\<close> and that has no timer pending.\<close>

definition init :: "TuyaBLEDevice \<Rightarrow> nat \<Rightarrow> coordinator" where
  "init dev t =
     \<lparr>device = dev, disconnected = True, unsub_disconnect = None,
      clock = t, timers = [], next_handle = 0, outputs = []\<rparr>"

text \<open>The property \<open>connected\<close>, and \<open>TuyaBLEEntity.available\<close>, which returns it.\<close>

definition connected :: "coordinator \<Rightarrow> bool" where
  "connected c = (\<not> disconnected c)"

definition available :: "coordinator \<Rightarrow> bool" where
  "available c = connected c"

text \<open>
  The host primitives. \<open>async_call_later\<close> schedules a timer due \<open>delay\<close> after the current
  time and returns its handle. \<open>cancel\<close> removes the timer with that handle; on a timer
  that has fired or was cancelled before it does nothing.
\<close>

definition async_call_later :: "nat \<Rightarrow> coordinator \<Rightarrow> nat \<times> coordinator" where
  "async_call_later delay c =
     (next_handle c,
      c\<lparr>timers := timers c @ [(next_handle c, clock c + delay)],
        next_handle := Suc (next_handle c)\<rparr>)"

definition cancel :: "nat \<Rightarrow> coordinator \<Rightarrow> coordinator" where
  "cancel h c = c\<lparr>timers := filter (\<lambda>(i, due). i \<noteq> h) (timers c)\<rparr>"

definition async_update_listeners :: "coordinator \<Rightarrow> coordinator" where
  "async_update_listeners c = c\<lparr>outputs := outputs c @ [Update_Listeners]\<rparr>"

text \<open>
  \<open>async_set_updated_data\<close> is inherited from the host's \<open>DataUpdateCoordinator\<close>: it
  stores the data (here always \<open>None\<close>), marks the last update successful and notifies the
  listeners by \<open>async_update_listeners\<close>. With no update interval configured it reschedules
  nothing.
\<close>

definition async_set_updated_data :: "coordinator \<Rightarrow> coordinator" where
  "async_set_updated_data c = async_update_listeners c"

definition bus_fire :: "string \<Rightarrow> string \<Rightarrow> coordinator \<Rightarrow> coordinator" where
  "bus_fire a d c = c\<lparr>outputs := outputs c @ [Button_Event a d]\<rparr>"

text \<open>\<open>_async_handle_connect\<close>: the timer is cancelled, the attribute is left as it is.\<close>

definition async_handle_connect :: "coordinator \<Rightarrow> coordinator" where
  "async_handle_connect c =
     (let c1 = (case unsub_disconnect c of Some h \<Rightarrow> cancel h c | None \<Rightarrow> c)
      in if disconnected c1 then async_update_listeners (c1\<lparr>disconnected := False\<rparr>)
         else c1)"

text \<open>The loop of \<open>_async_handle_update\<close> over the updates, for the descriptor \<open>fb\<close>.\<close>

fun scan_updates :: "TuyaBLEFingerbotInfo \<Rightarrow> TuyaBLEDataPoint list \<Rightarrow> coordinator \<Rightarrow> coordinator" where
  "scan_updates fb [] c = c"
| "scan_updates fb (update # updates) c =
     (if dp_id update = switch fb \<and> changed_by_device update
      then scan_updates fb updates (bus_fire (address (device c)) (device_id (device c)) c)
      else scan_updates fb updates c)"

definition async_handle_update :: "string \<Rightarrow> TuyaBLEDataPoint list \<Rightarrow> coordinator \<Rightarrow> coordinator" where
  "async_handle_update mf updates c =
     (let c1 = async_handle_connect c;
          c2 = async_set_updated_data c1
      in case get_device_product_info mf (device c2) of
           None \<Rightarrow> c2
         | Some product_info \<Rightarrow>
             (case fingerbot product_info of
                None \<Rightarrow> c2
              | Some fb \<Rightarrow>
                  if manual_control fb \<noteq> 0 then scan_updates fb updates c2 else c2))"

text \<open>\<open>_set_disconnected\<close>, the callback of the timer.\<close>

definition set_disconnected :: "coordinator \<Rightarrow> coordinator" where
  "set_disconnected c =
     async_update_listeners (c\<lparr>disconnected := True, unsub_disconnect := None\<rparr>)"

text \<open>
  \<open>_async_handle_disconnect\<close>. The parameter \<open>delay\<close> is the constant
  \<open>SET_DISCONNECTED_DELAY\<close>, which const.py defines, in the unit of \<open>clock\<close>.
\<close>

definition async_handle_disconnect :: "nat \<Rightarrow> coordinator \<Rightarrow> coordinator" where
  "async_handle_disconnect delay c =
     (if unsub_disconnect c = None
      then (let (h, c1) = async_call_later delay c in c1\<lparr>unsub_disconnect := Some h\<rparr>)
      else c)"

text \<open>
  The event loop lets time pass: \<open>elapse d\<close> moves the clock on by \<open>d\<close> and runs, in the
  order they were scheduled, the timers that fall due on the way. A timer that fires is
  no longer pending when its callback runs.
\<close>

fun run_due :: "nat \<Rightarrow> (nat \<times> nat) list \<Rightarrow> coordinator \<Rightarrow> coordinator" where
  "run_due t [] c = c"
| "run_due t ((h, due) # ts) c =
     (if due \<le> t \<and> (h, due) \<in> set (timers c)
      then run_due t ts (set_disconnected (cancel h c))
      else run_due t ts c)"

definition elapse :: "nat \<Rightarrow> coordinator \<Rightarrow> coordinator" where
  "elapse d c = (run_due (clock c + d) (timers c) c)\<lparr>clock := clock c + d\<rparr>"

text \<open>
  A run: the transport's three callbacks and the passing of time, one after the other on
  the single thread of the event loop.
\<close>

datatype event =
    Connect
  | Data_Update "TuyaBLEDataPoint list"
  | Disconnect
  | Elapse nat

fun step :: "string \<Rightarrow> nat \<Rightarrow> event \<Rightarrow> coordinator \<Rightarrow> coordinator" where
  "step mf delay Connect c = async_handle_connect c"
| "step mf delay (Data_Update updates) c = async_handle_update mf updates c"
| "step mf delay Disconnect c = async_handle_disconnect delay c"
| "step mf delay (Elapse d) c = elapse d c"

definition run :: "string \<Rightarrow> nat \<Rightarrow> event list \<Rightarrow> coordinator \<Rightarrow> coordinator" where
  "run mf delay es c = fold (step mf delay) es c"

text \<open>
  The invariant of the timers: at most one is pending, and the one that is pending is
  the one \<open>unsub_disconnect\<close> refers to.
\<close>

definition timer_inv :: "coordinator \<Rightarrow> bool" where
  "timer_inv c =
     (case timers c of
        [] \<Rightarrow> True
      | [(h, due)] \<Rightarrow> unsub_disconnect c = Some h
      | _ \<Rightarrow> False)"

text \<open>The number of observer notifications among outputs.\<close>

definition notifications :: "effect list \<Rightarrow> nat" where
  "notifications os = length (filter (\<lambda>out. out = Update_Listeners) os)"

text \<open>The outputs a transition adds to those of the state it starts from.\<close>

definition emitted :: "coordinator \<Rightarrow> coordinator \<Rightarrow> effect list" where
  "emitted c c' = drop (length (outputs c)) (outputs c')"

text \<open>
  The records of a batch that the scan answers with a button event: the id is the
  descriptor's switch id and the device itself made the change.
\<close>

definition pressed :: "TuyaBLEFingerbotInfo \<Rightarrow> TuyaBLEDataPoint list \<Rightarrow> TuyaBLEDataPoint list" where
  "pressed fb updates =
     filter (\<lambda>update. dp_id update = switch fb \<and> changed_by_device update) updates"

text \<open>The button events among outputs, in their order.\<close>

definition button_events :: "effect list \<Rightarrow> effect list" where
  "button_events os = filter (\<lambda>out. out \<noteq> Update_Listeners) os"

text \<open>The events that carry no sign of life: neither a connect nor a data update.\<close>

fun silent :: "event \<Rightarrow> bool" where
  "silent Connect = False"
| "silent (Data_Update updates) = False"
| "silent Disconnect = True"
| "silent (Elapse d) = True"

text \<open>Concrete devices and records for the examples.\<close>

definition fingerbot_plus_device :: TuyaBLEDevice where
  "fingerbot_plus_device =
     \<lparr>address = ''DC:23:4D:AA:BB:CC'', device_id = ''dev1'', category = ''szjqr'',
      product_id = ''blliqpsj''\<rparr>"

definition lock_device :: TuyaBLEDevice where
  "lock_device =
     \<lparr>address = ''DC:23:4D:00:11:22'', device_id = ''dev2'', category = ''ms'',
      product_id = ''ludzroix''\<rparr>"

definition press :: TuyaBLEDataPoint where
  "press = \<lparr>dp_id = 2, dp_value = 1, changed_by_device = True\<rparr>"

definition command_echo :: TuyaBLEDataPoint where
  "command_echo = \<lparr>dp_id = 2, dp_value = 1, changed_by_device = False\<rparr>"

section \<open>The catalogue lookup\<close>

lemma devices_database_keys: "distinct (map fst (devices_database mf))"
  by (simp add: devices_database_def)

lemma devices_database_product_keys:
  "map_of (devices_database mf) cat = Some ci \<Longrightarrow> distinct (map fst (products ci))"
  by (auto simp: devices_database_def fromkeys_def split: if_splits)

lemma devices_database_info:
  "map_of (devices_database mf) cat = Some ci \<Longrightarrow> info ci = None"
  by (auto simp: devices_database_def split: if_splits)

text \<open>
  Claim C10. \<open>get_product_info_by_ids\<close> is total and returns an optional result. When the
  category is in the database and the product id is a key of its products, the result is
  that product's entry. When the category is in the database and the product id is not a
  key, the result is the category's \<open>info\<close>, which is \<open>None\<close> for every category of the
  database. When the category is not in the database the result is \<open>None\<close>.
\<close>

theorem get_product_info_by_ids_cases:
  "(\<forall>ci p. map_of (devices_database mf) cat = Some ci \<and> map_of (products ci) pid = Some p
      \<longrightarrow> get_product_info_by_ids mf cat pid = Some p)
   \<and> (\<forall>ci. map_of (devices_database mf) cat = Some ci \<and> map_of (products ci) pid = None
      \<longrightarrow> get_product_info_by_ids mf cat pid = info ci \<and> info ci = None)
   \<and> (map_of (devices_database mf) cat = None \<longrightarrow> get_product_info_by_ids mf cat pid = None)"
  by (auto simp: get_product_info_by_ids_def devices_database_info)

theorem get_product_info_by_ids_cases_witness:
  "get_product_info_by_ids ''Tuya'' ''ms'' ''isk2p555'' = Some (plain_product ''Tuya'' ''Smart Lock'')
   \<and> get_product_info_by_ids ''Tuya'' ''ms'' ''unknown'' = None
   \<and> get_product_info_by_ids ''Tuya'' ''nocat'' ''isk2p555'' = None"
proof -
  let ?ci = "\<lparr>products = fromkeys [''ludzroix'', ''isk2p555'', ''isljqiq1'']
                          (plain_product ''Tuya'' ''Smart Lock''),
              info = None\<rparr>"
  have c: "map_of (devices_database ''Tuya'') ''ms'' = Some ?ci"
    by (simp add: devices_database_def)
  have p: "map_of (products ?ci) ''isk2p555'' = Some (plain_product ''Tuya'' ''Smart Lock'')"
    by (simp add: fromkeys_def)
  have u: "map_of (products ?ci) ''unknown'' = None"
    by (simp add: fromkeys_def)
  have n: "map_of (devices_database ''Tuya'') ''nocat'' = None"
    by (simp add: devices_database_def)
  from get_product_info_by_ids_cases [of "''Tuya''" "''ms''" "''isk2p555''"] c p
  have 1: "get_product_info_by_ids ''Tuya'' ''ms'' ''isk2p555''
           = Some (plain_product ''Tuya'' ''Smart Lock'')"
    by blast
  from get_product_info_by_ids_cases [of "''Tuya''" "''ms''" "''unknown''"] c u
  have 2: "get_product_info_by_ids ''Tuya'' ''ms'' ''unknown'' = info ?ci"
    by blast
  from get_product_info_by_ids_cases [of "''Tuya''" "''nocat''" "''isk2p555''"] n
  have 3: "get_product_info_by_ids ''Tuya'' ''nocat'' ''isk2p555'' = None"
    by blast
  from 1 2 3 show ?thesis
    by simp
qed

section \<open>The short address\<close>

lemma split_char_not_Nil: "split_char sep s \<noteq> []"
  by (induction s) (auto split: list.splits)

text \<open>Joining the parts of a split with the separator gives the string back.\<close>

lemma join_split_char: "join [sep] (split_char sep s) = s"
proof (induction s)
  case Nil
  then show ?case by simp
next
  case (Cons c cs)
  obtain p ps where r: "split_char sep cs = p # ps"
    using split_char_not_Nil by (cases "split_char sep cs") auto
  show ?case using Cons r by (cases ps) auto
qed

lemma slice_from_end_last_three: "slice_from_end 3 xs = last_three_groups xs"
  by (simp add: slice_from_end_def last_three_groups_def take_rev)

lemma slice_from_end_short: "length xs \<le> k \<Longrightarrow> slice_from_end k xs = xs"
  by (simp add: slice_from_end_def)

text \<open>
  Claim C9. For every address, \<open>get_short_address\<close> is the colon-join of the last three
  colon-separated groups of \<open>get_full_address\<close>; and when the full address has three groups
  or fewer, \<open>get_short_address\<close> returns the full address unchanged.
\<close>

theorem get_short_address_last_three:
  "get_short_address a =
     join '':'' (last_three_groups (split_char (CHR '':'') (get_full_address a)))
   \<and> (length (split_char (CHR '':'') (get_full_address a)) \<le> 3
        \<longrightarrow> get_short_address a = get_full_address a)"
  by (simp add: get_short_address_def slice_from_end_last_three [symmetric]
      slice_from_end_short join_split_char)

theorem get_short_address_last_three_witness:
  "get_short_address ''dd-ee-ff'' = get_full_address ''dd-ee-ff''
   \<and> get_full_address ''dd-ee-ff'' = ''DD:EE:FF''"
proof -
  have h: "length (split_char (CHR '':'') (get_full_address ''dd-ee-ff'')) \<le> 3"
    by code_simp
  have v: "get_full_address ''dd-ee-ff'' = ''DD:EE:FF''"
    by code_simp
  from get_short_address_last_three [of "''dd-ee-ff''"] h v show ?thesis
    by blast
qed

lemma get_short_address_example: "get_short_address ''aa:bb:cc:dd:ee:ff'' = ''DD:EE:FF''"
  by code_simp

section \<open>The coordinator's transitions\<close>

lemma async_handle_connect_simps:
  "disconnected (async_handle_connect c) = False"
  "unsub_disconnect (async_handle_connect c) = unsub_disconnect c"
  "device (async_handle_connect c) = device c"
  "clock (async_handle_connect c) = clock c"
  "next_handle (async_handle_connect c) = next_handle c"
  "outputs (async_handle_connect c) =
     outputs c @ (if disconnected c then [Update_Listeners] else [])"
  "timers (async_handle_connect c) =
     (case unsub_disconnect c of
        Some h \<Rightarrow> filter (\<lambda>(i, due). i \<noteq> h) (timers c)
      | None \<Rightarrow> timers c)"
  by (auto simp: async_handle_connect_def cancel_def async_update_listeners_def Let_def
      split: option.splits)

text \<open>The scan adds one button event for each pressed record and changes nothing else.\<close>

lemma scan_updates_eq:
  "scan_updates fb updates c =
     c\<lparr>outputs := outputs c
          @ map (\<lambda>u. Button_Event (address (device c)) (device_id (device c)))
              (pressed fb updates)\<rparr>"
  by (induction updates arbitrary: c) (simp_all add: pressed_def bus_fire_def)

lemma async_handle_update_outputs:
  "outputs (async_handle_update mf updates c) =
     outputs c @ (if disconnected c then [Update_Listeners] else []) @ [Update_Listeners]
     @ (case get_device_product_info mf (device c) of
          None \<Rightarrow> []
        | Some product_info \<Rightarrow>
            (case fingerbot product_info of
               None \<Rightarrow> []
             | Some fb \<Rightarrow>
                 if manual_control fb \<noteq> 0
                 then map (\<lambda>u. Button_Event (address (device c)) (device_id (device c)))
                        (pressed fb updates)
                 else []))"
  by (simp add: async_handle_update_def async_set_updated_data_def async_update_listeners_def
      scan_updates_eq async_handle_connect_simps Let_def split: option.splits)

lemma async_handle_update_simps:
  "disconnected (async_handle_update mf updates c) = False"
  "unsub_disconnect (async_handle_update mf updates c) = unsub_disconnect c"
  "timers (async_handle_update mf updates c) = timers (async_handle_connect c)"
  "clock (async_handle_update mf updates c) = clock c"
  by (simp_all add: async_handle_update_def async_set_updated_data_def async_update_listeners_def
      scan_updates_eq async_handle_connect_simps Let_def split: option.splits)

lemma run_due_disconnected:
  "disconnected c \<Longrightarrow> disconnected (run_due t ts c)"
  by (induction ts arbitrary: c)
    (auto simp: set_disconnected_def cancel_def async_update_listeners_def)

lemma silent_step_disconnected:
  "disconnected c \<Longrightarrow> silent e \<Longrightarrow> disconnected (step mf delay e c)"
  by (cases e)
    (auto simp: async_handle_disconnect_def async_call_later_def elapse_def run_due_disconnected)

lemma silent_run_disconnected:
  "disconnected c \<Longrightarrow> list_all silent es \<Longrightarrow> disconnected (run mf delay es c)"
  unfolding run_def
  by (induction es arbitrary: c) (simp_all add: silent_step_disconnected)

text \<open>
  Claim C8. A freshly constructed coordinator has \<open>disconnected\<close> true and no stored timer
  reference, so \<open>connected\<close> and the entities' \<open>available\<close> are false; they stay false over
  every run without a connect or a data update, and one connect or one data update makes
  \<open>connected\<close> true.
\<close>

theorem init_not_connected:
  "disconnected (init dev t) \<and> unsub_disconnect (init dev t) = None
   \<and> \<not> connected (init dev t) \<and> \<not> available (init dev t)
   \<and> (list_all silent es \<longrightarrow> \<not> connected (run mf delay es (init dev t)))
   \<and> connected (async_handle_connect (init dev t))
   \<and> connected (async_handle_update mf updates (init dev t))"
proof -
  have d: "disconnected (init dev t)"
    by (simp add: init_def)
  have "list_all silent es \<longrightarrow> disconnected (run mf delay es (init dev t))"
    using silent_run_disconnected [OF d] by blast
  then show ?thesis
    by (simp add: connected_def available_def async_handle_connect_simps
        async_handle_update_simps) (simp add: init_def)
qed

theorem init_not_connected_witness:
  "\<not> connected (run ''Tuya'' 600 [Disconnect, Elapse 700, Disconnect] (init lock_device 0))"
proof -
  have "list_all silent [Disconnect, Elapse 700, Disconnect]"
    by simp
  with init_not_connected [of lock_device 0 "[Disconnect, Elapse 700, Disconnect]" "''Tuya''" 600]
  show ?thesis
    by blast
qed

section \<open>The debounce timer\<close>

lemma timer_inv_iff:
  "timer_inv c \<longleftrightarrow>
     timers c = [] \<or> (\<exists>h due. timers c = [(h, due)] \<and> unsub_disconnect c = Some h)"
  by (auto simp: timer_inv_def split: list.splits)

lemma timer_inv_connect: "timer_inv c \<Longrightarrow> timer_inv (async_handle_connect c)"
  by (auto simp: timer_inv_iff async_handle_connect_simps split: option.splits)

lemma timer_inv_update: "timer_inv c \<Longrightarrow> timer_inv (async_handle_update mf updates c)"
  using timer_inv_connect [of c]
  by (simp add: timer_inv_iff async_handle_update_simps async_handle_connect_simps(2))

lemma timer_inv_disconnect: "timer_inv c \<Longrightarrow> timer_inv (async_handle_disconnect delay c)"
  by (auto simp: timer_inv_iff async_handle_disconnect_def async_call_later_def)

lemma elapse_no_timer: "timers c = [] \<Longrightarrow> elapse d c = c\<lparr>clock := clock c + d\<rparr>"
  by (simp add: elapse_def)

lemma elapse_one_timer:
  "timers c = [(h, due)] \<Longrightarrow>
   elapse d c =
     (if due \<le> clock c + d
      then (set_disconnected (cancel h c))\<lparr>clock := clock c + d\<rparr>
      else c\<lparr>clock := clock c + d\<rparr>)"
  by (simp add: elapse_def)

lemma timer_inv_elapse: "timer_inv c \<Longrightarrow> timer_inv (elapse d c)"
proof -
  assume inv: "timer_inv c"
  show "timer_inv (elapse d c)"
  proof (cases "timers c")
    case Nil
    then show ?thesis
      by (simp add: elapse_no_timer timer_inv_iff)
  next
    case (Cons x xs)
    with inv obtain h due where t: "timers c = [(h, due)]" and u: "unsub_disconnect c = Some h"
      by (auto simp: timer_inv_iff)
    show ?thesis
    proof (cases "due \<le> clock c + d")
      case True
      with t show ?thesis
        by (simp add: elapse_one_timer timer_inv_iff set_disconnected_def cancel_def
            async_update_listeners_def)
    next
      case False
      with t u show ?thesis
        by (simp add: elapse_one_timer timer_inv_iff)
    qed
  qed
qed

lemma timer_inv_step: "timer_inv c \<Longrightarrow> timer_inv (step mf delay e c)"
  by (cases e) (simp_all add: timer_inv_connect timer_inv_update timer_inv_disconnect
      timer_inv_elapse)

lemma timer_inv_run: "timer_inv c \<Longrightarrow> timer_inv (run mf delay es c)"
  unfolding run_def
  by (induction es arbitrary: c) (simp_all add: timer_inv_step)

lemma timer_inv_init: "timer_inv (init dev t)"
  by (simp add: timer_inv_def init_def)

text \<open>In every state a run reaches from a fresh coordinator at most one timer is pending.\<close>

lemma at_most_one_timer: "length (timers (run mf delay es (init dev t))) \<le> 1"
  using timer_inv_run [OF timer_inv_init, of mf delay es dev t]
  by (auto simp: timer_inv_iff)

lemma async_handle_disconnect_clear:
  "unsub_disconnect c = None \<Longrightarrow>
   async_handle_disconnect delay c =
     c\<lparr>timers := timers c @ [(next_handle c, clock c + delay)],
       next_handle := Suc (next_handle c),
       unsub_disconnect := Some (next_handle c)\<rparr>"
  by (simp add: async_handle_disconnect_def async_call_later_def)

lemma async_handle_disconnect_set:
  "unsub_disconnect c \<noteq> None \<Longrightarrow> async_handle_disconnect delay c = c"
  by (cases "unsub_disconnect c") (simp_all add: async_handle_disconnect_def)

text \<open>
  Claim C1. In a state with a disconnect timer pending, \<open>_async_handle_connect\<close> cancels
  the timer and clears the stored reference. Evaluated on the state a connect and a
  disconnect lead to: the timer is cancelled, and the stored reference is still set.
\<close>

theorem handle_connect_keeps_reference:
  "unsub_disconnect (run ''Tuya'' 600 [Connect, Disconnect] (init lock_device 0)) = Some 0
   \<and> timers (run ''Tuya'' 600 [Connect, Disconnect] (init lock_device 0)) = [(0, 600)]
   \<and> timers (async_handle_connect
        (run ''Tuya'' 600 [Connect, Disconnect] (init lock_device 0))) = []
   \<and> unsub_disconnect (async_handle_connect
        (run ''Tuya'' 600 [Connect, Disconnect] (init lock_device 0))) = Some 0"
  by code_simp

text \<open>
  Claim C2. \<open>_async_handle_disconnect\<close> does nothing when a timer is pending and otherwise
  schedules one timer and stores its handle, so that two disconnects in a row leave one
  timer pending. Evaluated after a connect, a disconnect and a second connect: the two
  disconnects that follow leave no timer pending, the stored reference being the cancelled
  timer's.
\<close>

theorem stale_reference_schedules_nothing:
  "timers (run ''Tuya'' 600 [Connect, Disconnect, Connect, Disconnect, Disconnect]
     (init lock_device 0)) = []
   \<and> unsub_disconnect (run ''Tuya'' 600 [Connect, Disconnect, Connect, Disconnect, Disconnect]
     (init lock_device 0)) = Some 0"
  by code_simp

text \<open>
  Claim C5. A disconnect that no connect or data update follows before the delay has
  elapsed makes \<open>connected\<close> false after the delay, with one observer notification when the
  timer fires. Evaluated after a connect, a disconnect and a second connect: the next
  disconnect and the full delay leave \<open>connected\<close> true, and the only notification of the
  run is the first connect's.
\<close>

theorem stale_reference_stays_connected:
  "connected (run ''Tuya'' 600 [Connect, Disconnect, Connect, Disconnect, Elapse 600]
     (init lock_device 0))
   \<and> outputs (run ''Tuya'' 600 [Connect, Disconnect, Connect, Disconnect, Elapse 600]
     (init lock_device 0)) = [Update_Listeners]"
  by code_simp

text \<open>
  From a state that stores no reference and has no timer pending, a disconnect and the
  full delay do set \<open>disconnected\<close>, leave no reference and notify once.
\<close>

lemma debounce_fires_from_clear_reference:
  assumes "unsub_disconnect c = None" and "timers c = []"
  shows "elapse delay (async_handle_disconnect delay c) =
           c\<lparr>disconnected := True, next_handle := Suc (next_handle c),
             clock := clock c + delay, outputs := outputs c @ [Update_Listeners]\<rparr>"
  using assms
  by (simp add: async_handle_disconnect_clear elapse_one_timer set_disconnected_def cancel_def
      async_update_listeners_def)

text \<open>
  Once the stored reference is that of a timer no longer pending, a connected coordinator
  stays connected over every run: no later disconnect schedules a timer.
\<close>

lemma stale_reference_step:
  assumes "unsub_disconnect c \<noteq> None" and "timers c = []" and "\<not> disconnected c"
  shows "unsub_disconnect (step mf delay e c) \<noteq> None \<and> timers (step mf delay e c) = []
     \<and> \<not> disconnected (step mf delay e c)"
  using assms
  by (cases e)
    (auto simp: async_handle_connect_simps async_handle_update_simps
      async_handle_disconnect_set elapse_no_timer)

lemma stale_reference_run:
  assumes "unsub_disconnect c \<noteq> None" and "timers c = []" and "\<not> disconnected c"
  shows "connected (run mf delay es c)"
proof -
  have "unsub_disconnect (fold (step mf delay) es c) \<noteq> None
      \<and> timers (fold (step mf delay) es c) = []
      \<and> \<not> disconnected (fold (step mf delay) es c)"
    using assms
  proof (induction es arbitrary: c)
    case Nil
    then show ?case by simp
  next
    case (Cons e es)
    from stale_reference_step [OF Cons.prems, of mf delay e] show ?case
      by (simp add: Cons.IH)
  qed
  then show ?thesis
    by (simp add: run_def connected_def)
qed

text \<open>
  Claim C4. Take a connected coordinator in a state that satisfies the timer invariant
  (every reachable state does), a disconnect, a time \<open>d\<close> shorter than the delay and than
  what is left of a timer already pending, and then a connect. \<open>connected\<close> is true after
  each of the three steps, no observer is notified, no timer is pending after the connect,
  and however much time passes afterwards nothing but the clock changes: the callback
  \<open>_set_disconnected\<close> does not run.
\<close>

theorem debounce_cancellation:
  assumes "timer_inv c" and "connected c"
    and "list_all (\<lambda>(h, due). clock c + d < due) (timers c)" and "d < delay"
  shows "connected (async_handle_disconnect delay c)
     \<and> connected (elapse d (async_handle_disconnect delay c))
     \<and> connected (async_handle_connect (elapse d (async_handle_disconnect delay c)))
     \<and> outputs (async_handle_connect (elapse d (async_handle_disconnect delay c))) = outputs c
     \<and> timers (async_handle_connect (elapse d (async_handle_disconnect delay c))) = []
     \<and> (\<forall>d'. elapse d' (async_handle_connect (elapse d (async_handle_disconnect delay c))) =
           (async_handle_connect (elapse d (async_handle_disconnect delay c)))
             \<lparr>clock := clock c + d + d'\<rparr>)"
proof -
  let ?c1 = "async_handle_disconnect delay c"
  let ?c3 = "async_handle_connect (elapse d ?c1)"
  from assms(2) have nd: "\<not> disconnected c"
    by (simp add: connected_def)
  have "connected ?c1 \<and> connected (elapse d ?c1)
        \<and> \<not> disconnected ?c3 \<and> outputs ?c3 = outputs c \<and> timers ?c3 = []
        \<and> clock ?c3 = clock c + d"
  proof (cases "unsub_disconnect c")
    case None
    with assms(1) have t: "timers c = []"
      by (auto simp: timer_inv_iff)
    have c1: "?c1 = c\<lparr>timers := [(next_handle c, clock c + delay)],
         next_handle := Suc (next_handle c),
         unsub_disconnect := Some (next_handle c)\<rparr>"
      using None t by (simp add: async_handle_disconnect_clear)
    have c2: "elapse d ?c1 = c\<lparr>timers := [(next_handle c, clock c + delay)],
         next_handle := Suc (next_handle c),
         unsub_disconnect := Some (next_handle c),
         clock := clock c + d\<rparr>"
      unfolding c1 using assms(4) by (simp add: elapse_one_timer)
    show ?thesis
      unfolding c2 unfolding c1 using nd
      by (simp add: async_handle_connect_simps connected_def)
  next
    case (Some h)
    have c1: "?c1 = c"
      using Some by (simp add: async_handle_disconnect_set)
    have c2: "elapse d c = c\<lparr>clock := clock c + d\<rparr>"
      using assms(1,3) Some by (auto simp: timer_inv_iff elapse_no_timer elapse_one_timer)
    have t: "filter (\<lambda>(i, due). i \<noteq> h) (timers c) = []"
      using assms(1) Some by (auto simp: timer_inv_iff)
    show ?thesis
      unfolding c1 c2 using nd Some t
      by (simp add: async_handle_connect_simps connected_def)
  qed
  moreover have "timers ?c3 = [] \<Longrightarrow> clock ?c3 = clock c + d \<Longrightarrow>
      (\<forall>d'. elapse d' ?c3 = ?c3\<lparr>clock := clock c + d + d'\<rparr>)"
    by (simp add: elapse_no_timer)
  ultimately show ?thesis
    by (simp add: connected_def)
qed

theorem debounce_cancellation_witness:
  "connected (elapse 5 (async_handle_disconnect 600 (async_handle_connect (init lock_device 0))))
   \<and> timers (async_handle_disconnect 600 (async_handle_connect (init lock_device 0))) = [(0, 600)]
   \<and> timers (async_handle_connect
        (elapse 5 (async_handle_disconnect 600 (async_handle_connect (init lock_device 0))))) = []"
proof -
  let ?c = "async_handle_connect (init lock_device 0)"
  have 1: "timer_inv ?c"
    by (simp add: timer_inv_connect timer_inv_init)
  have 2: "connected ?c"
    by (simp add: connected_def async_handle_connect_simps)
  have 3: "list_all (\<lambda>(h, due). clock ?c + 5 < due) (timers ?c)"
    by (simp add: async_handle_connect_simps init_def)
  have 4: "(5::nat) < 600"
    by simp
  have 5: "timers (async_handle_disconnect 600 ?c) = [(0, 600)]"
    by (simp add: async_handle_disconnect_clear async_handle_connect_simps init_def)
  from debounce_cancellation [OF 1 2 3 4] 5 show ?thesis
    by blast
qed

section \<open>Notifications and button events\<close>

lemma emitted_append: "outputs c' = outputs c @ os \<Longrightarrow> emitted c c' = os"
  by (simp add: emitted_def)

lemma button_events_map:
  "button_events (map (\<lambda>u. Button_Event a d) us) = map (\<lambda>u. Button_Event a d) us"
  by (induction us) (simp_all add: button_events_def)

lemma notifications_map: "notifications (map (\<lambda>u. Button_Event a d) us) = 0"
  by (induction us) (simp_all add: notifications_def)

text \<open>A second connect right after a connect changes nothing.\<close>

lemma async_handle_connect_idem:
  "async_handle_connect (async_handle_connect c) = async_handle_connect c"
  by (cases "unsub_disconnect c")
    (simp_all add: async_handle_connect_def cancel_def async_update_listeners_def Let_def)

text \<open>
  Claim C3 as stated, "exactly one observer notification during the call", fails on a
  fresh coordinator and an empty batch: the call notifies twice.
\<close>

theorem data_update_one_notification_counterexample:
  "disconnected (init lock_device 0)
   \<and> notifications (emitted (init lock_device 0)
        (async_handle_update ''Tuya'' [] (init lock_device 0))) \<noteq> 1"
  by code_simp

text \<open>
  Claim C3, amended. In a state with \<open>disconnected\<close> true and for every batch,
  \<open>_async_handle_update\<close> makes \<open>connected\<close> true and notifies the observers exactly twice:
  once in the embedded \<open>_async_handle_connect\<close> and once in \<open>async_set_updated_data\<close>, which
  follows it. These are the first two outputs of the call; the scan over the batch adds no
  observer notification.
\<close>

theorem data_update_notifications:
  assumes "disconnected c"
  shows "connected (async_handle_update mf updates c)
     \<and> notifications (emitted c (async_handle_update mf updates c)) = 2
     \<and> take 2 (emitted c (async_handle_update mf updates c))
         = [Update_Listeners, Update_Listeners]
     \<and> notifications (drop 2 (emitted c (async_handle_update mf updates c))) = 0
     \<and> emitted c (async_handle_connect c) = [Update_Listeners]"
proof -
  obtain bs where o: "outputs (async_handle_update mf updates c)
      = outputs c @ [Update_Listeners, Update_Listeners] @ bs"
    and n: "notifications bs = 0"
    using assms
    by (cases "get_device_product_info mf (device c)")
      (auto simp: async_handle_update_outputs notifications_map notifications_def
        split: option.splits)
  have e: "emitted c (async_handle_update mf updates c) = [Update_Listeners, Update_Listeners] @ bs"
    using o by (rule emitted_append)
  have h: "emitted c (async_handle_connect c) = [Update_Listeners]"
    using assms by (simp add: emitted_def async_handle_connect_simps)
  show ?thesis
    using n by (simp add: e h connected_def async_handle_update_simps) (simp add: notifications_def)
qed

theorem data_update_notifications_witness:
  "notifications (emitted (init fingerbot_plus_device 0)
      (async_handle_update ''Tuya'' [press] (init fingerbot_plus_device 0))) = 2"
proof -
  have "disconnected (init fingerbot_plus_device 0)"
    by (simp add: init_def)
  from data_update_notifications [OF this, of "''Tuya''" "[press]"] show ?thesis
    by blast
qed

text \<open>
  Claim C6. When the device's product descriptor has a fingerbot descriptor with a nonzero
  \<open>manual_control\<close>, \<open>_async_handle_update\<close> emits, in the order of the batch, one button
  event carrying the device's address and device id for each record whose id is the
  descriptor's switch id and whose \<open>changed_by_device\<close> flag is true, and none for any other
  record. It emits no button event when \<open>manual_control\<close> is zero, when the product has
  no fingerbot descriptor, or when the device has no product descriptor.
\<close>

theorem button_press_events:
  "(\<forall>product_info fb.
        get_device_product_info mf (device c) = Some product_info
        \<and> fingerbot product_info = Some fb \<and> manual_control fb \<noteq> 0
      \<longrightarrow> button_events (emitted c (async_handle_update mf updates c))
          = map (\<lambda>u. Button_Event (address (device c)) (device_id (device c)))
              (pressed fb updates))
   \<and> (\<forall>product_info fb.
        get_device_product_info mf (device c) = Some product_info
        \<and> fingerbot product_info = Some fb \<and> manual_control fb = 0
      \<longrightarrow> button_events (emitted c (async_handle_update mf updates c)) = [])
   \<and> (\<forall>product_info.
        get_device_product_info mf (device c) = Some product_info
        \<and> fingerbot product_info = None
      \<longrightarrow> button_events (emitted c (async_handle_update mf updates c)) = [])
   \<and> (get_device_product_info mf (device c) = None
      \<longrightarrow> button_events (emitted c (async_handle_update mf updates c)) = [])"
  by (auto simp: emitted_def async_handle_update_outputs button_events_map)
    (simp_all add: button_events_def)

theorem button_press_events_witness:
  "button_events (emitted (init fingerbot_plus_device 0)
      (async_handle_update ''Tuya'' [press, command_echo, press] (init fingerbot_plus_device 0)))
   = [Button_Event ''DC:23:4D:AA:BB:CC'' ''dev1'', Button_Event ''DC:23:4D:AA:BB:CC'' ''dev1'']
   \<and> button_events (emitted (init lock_device 0)
      (async_handle_update ''Tuya'' [press, command_echo, press] (init lock_device 0))) = []"
proof -
  let ?p = "\<lparr>name = ''Fingerbot Plus'', manufacturer = ''Tuya'',
             fingerbot = Some fingerbot_plus_fingerbot\<rparr>"
  have i: "get_device_product_info ''Tuya'' (device (init fingerbot_plus_device 0)) = Some ?p"
    by (simp add: init_def get_device_product_info_def fingerbot_plus_device_def
        get_product_info_by_ids_def devices_database_def fromkeys_def)
  have f: "fingerbot ?p = Some fingerbot_plus_fingerbot"
    by simp
  have m: "manual_control fingerbot_plus_fingerbot \<noteq> 0"
    by (simp add: fingerbot_plus_fingerbot_def)
  have p: "pressed fingerbot_plus_fingerbot [press, command_echo, press] = [press, press]"
    by (simp add: pressed_def fingerbot_plus_fingerbot_def press_def command_echo_def)
  have d: "address (device (init fingerbot_plus_device 0)) = ''DC:23:4D:AA:BB:CC''
      \<and> device_id (device (init fingerbot_plus_device 0)) = ''dev1''"
    by (simp add: init_def fingerbot_plus_device_def)
  from button_press_events [of "''Tuya''" "init fingerbot_plus_device 0"
      "[press, command_echo, press]"] i f m
  have 1: "button_events (emitted (init fingerbot_plus_device 0)
      (async_handle_update ''Tuya'' [press, command_echo, press] (init fingerbot_plus_device 0)))
    = map (\<lambda>u. Button_Event (address (device (init fingerbot_plus_device 0)))
                  (device_id (device (init fingerbot_plus_device 0))))
        (pressed fingerbot_plus_fingerbot [press, command_echo, press])"
    by blast
  let ?q = "plain_product ''Tuya'' ''Smart Lock''"
  have j: "get_device_product_info ''Tuya'' (device (init lock_device 0)) = Some ?q"
    by (simp add: init_def get_device_product_info_def lock_device_def
        get_product_info_by_ids_def devices_database_def fromkeys_def)
  have g: "fingerbot ?q = None"
    by (simp add: plain_product_def)
  from button_press_events [of "''Tuya''" "init lock_device 0" "[press, command_echo, press]"] j g
  have 2: "button_events (emitted (init lock_device 0)
      (async_handle_update ''Tuya'' [press, command_echo, press] (init lock_device 0))) = []"
    by blast
  from 1 2 show ?thesis
    by (simp add: p d)
qed

text \<open>
  Claim C7 as stated, "from any state exactly one observer notification in total", fails
  from a state that is already connected: two connects notify nobody.
\<close>

theorem connect_twice_one_notification_counterexample:
  "notifications (emitted (async_handle_connect (init lock_device 0))
      (async_handle_connect (async_handle_connect (async_handle_connect (init lock_device 0)))))
   \<noteq> 1"
  by code_simp

text \<open>
  Claim C7, amended. Two calls of \<open>_async_handle_connect\<close> in a row notify the observers
  exactly once in total when the state was disconnected and not at all when it was already
  connected. The first call leaves the coordinator connected, and the second call changes
  nothing and emits nothing.
\<close>

theorem connect_twice_notifications:
  "notifications (emitted c (async_handle_connect (async_handle_connect c)))
     = (if disconnected c then 1 else 0)
   \<and> connected (async_handle_connect c)
   \<and> async_handle_connect (async_handle_connect c) = async_handle_connect c
   \<and> emitted (async_handle_connect c) (async_handle_connect (async_handle_connect c)) = []"
  by (simp add: async_handle_connect_idem connected_def async_handle_connect_simps
      emitted_def notifications_def)

end
